theory Spec2Isabelle
  imports Complex_Main "HOL-Library.Char_ord" "HOL-Library.List_Lexorder"
begin

section \<open>Python values used by the scripts\<close>

text \<open>
  Python floats are modelled as reals: every constant of the tables is a short decimal
  literal, and the properties below are about which values are looked up, compared and
  combined, not about rounding.  Python dictionaries keep insertion order, which the
  lookups of the scripts depend on, so a dictionary is an association list in
  declaration order.
\<close>

type_synonym 'v dict = "(string \<times> 'v) list"

datatype error =
    KeyError string
  | IndexError
  | AssertionError string
  | RuntimeError string
  | ValueError string

text \<open>\<^verbatim>\<open>s.startswith(p)\<close>.\<close>

fun startswith :: "string \<Rightarrow> string \<Rightarrow> bool" where
  "startswith s [] = True"
| "startswith [] (c # p) = False"
| "startswith (d # s) (c # p) = (d = c \<and> startswith s p)"

text \<open>\<^verbatim>\<open>p in s\<close> on strings: \<open>p\<close> occurs in \<open>s\<close> as a contiguous substring.\<close>

fun str_in :: "string \<Rightarrow> string \<Rightarrow> bool" where
  "str_in p [] = (p = [])"
| "str_in p (c # s) = (startswith (c # s) p \<or> str_in p s)"

text \<open>\<^verbatim>\<open>d[k]\<close> and the keys of a dictionary.\<close>

definition dict_get :: "'v dict \<Rightarrow> string \<Rightarrow> error + 'v" where
  "dict_get d k = (case map_of d k of None \<Rightarrow> Inl (KeyError k) | Some v \<Rightarrow> Inr v)"

definition keys :: "'v dict \<Rightarrow> string list" where
  "keys d = map fst d"

section \<open>The joint taxonomy (\<^verbatim>\<open>stompy_legs/joints.py\<close>)\<close>

text \<open>
  A \<^verbatim>\<open>Node\<close> subclass is its class body: the attribute names with their values, in
  declaration order.  A value is a string (a joint), an instance of another \<^verbatim>\<open>Node\<close>
  subclass (given by that class's body), or anything else (the class methods).
\<close>

datatype attr = Str string | Inst "(string \<times> attr) list" | Other

type_synonym node = "(string \<times> attr) list"

text \<open>
  \<^verbatim>\<open>dir(cls)\<close> returns the attribute names sorted alphabetically, each once;
  \<^verbatim>\<open>getattr\<close> reads the binding the class body made last.  The comprehension
  \<^verbatim>\<open>(getattr(cls, attr) for attr in dir(cls) if not attr.startswith("__"))\<close>
  is \<open>attr_values\<close>.  \<^verbatim>\<open>Node\<close> has no constructor and no class hook, so defining or
  instantiating a subclass runs no code of the module: \<open>instantiate\<close> returns the
  class as it is.
\<close>

definition dir :: "node \<Rightarrow> string list" where
  "dir cls = sort (remdups (map fst cls))"

definition getattr :: "node \<Rightarrow> string \<Rightarrow> attr" where
  "getattr cls a = (case map_of (rev cls) a of Some v \<Rightarrow> v | None \<Rightarrow> Other)"

definition public_attrs :: "node \<Rightarrow> string list" where
  "public_attrs cls = filter (\<lambda>a. \<not> startswith a ''__'') (dir cls)"

definition attr_values :: "node \<Rightarrow> attr list" where
  "attr_values cls = map (getattr cls) (public_attrs cls)"

fun is_str :: "attr \<Rightarrow> bool" where
  "is_str (Str s) = True"
| "is_str _ = False"

fun is_node :: "attr \<Rightarrow> bool" where
  "is_node (Inst c) = True"
| "is_node _ = False"

fun the_str :: "attr \<Rightarrow> string" where
  "the_str (Str s) = s"
| "the_str _ = []"

fun the_node :: "attr \<Rightarrow> node" where
  "the_node (Inst c) = c"
| "the_node _ = []"

definition instantiate :: "node \<Rightarrow> error + node" where
  "instantiate cls = Inr cls"

text \<open>\<^verbatim>\<open>Node.children\<close> and \<^verbatim>\<open>Node.joints\<close>.\<close>

definition children :: "node \<Rightarrow> attr list" where
  "children cls = filter (\<lambda>v. is_node v \<or> is_str v) (attr_values cls)"

definition joints :: "node \<Rightarrow> string list" where
  "joints cls = map the_str (filter is_str (attr_values cls))"

text \<open>
  \<^verbatim>\<open>Node.all_joints\<close>: the class's own joints first, then the joints of every child
  that is a \<^verbatim>\<open>Node\<close>, in the order of \<^verbatim>\<open>children()\<close>.
\<close>

function all_joints :: "node \<Rightarrow> string list" where
  "all_joints cls =
     joints cls @ concat (map (\<lambda>child. all_joints (the_node child)) (filter is_node (children cls)))"
  by pat_completeness auto
termination
proof (relation "measure (size_list (size_prod (\<lambda>_. 0) size))")
  show "wf (measure (size_list (size_prod (\<lambda>_. 0) size)))" by simp
next
  fix cls :: node and child
  assume "child \<in> set (filter is_node (children cls))"
  then have mem: "child \<in> set (attr_values cls)" and nd: "is_node child"
    by (simp_all add: children_def)
  from nd obtain c where c: "child = Inst c"
    by (cases child) simp_all
  from mem obtain a where "child = getattr cls a"
    by (auto simp: attr_values_def public_attrs_def)
  with c have "map_of (rev cls) a = Some (Inst c)"
    by (simp add: getattr_def split: option.splits)
  then have "(a, Inst c) \<in> set (rev cls)"
    by (rule map_of_SomeD)
  then have "(a, Inst c) \<in> set cls" by simp
  then have "size (Inst c) < Suc (size_list (size_prod (\<lambda>_. 0) size) cls)"
    by (induction cls) auto
  with c show "(the_node child, cls) \<in> measure (size_list (size_prod (\<lambda>_. 0) size))"
    by simp
qed

declare all_joints.simps [simp del]

text \<open>The reference robot: two legs of six joints.\<close>

definition LeftLeg :: node where
  "LeftLeg =
    [(''hip_roll'', Str ''left hip roll''),
     (''hip_yaw'', Str ''left hip yaw''),
     (''hip_pitch'', Str ''left hip pitch''),
     (''knee_pitch'', Str ''left knee pitch''),
     (''ankle_pitch'', Str ''left ankle pitch''),
     (''ankle_roll'', Str ''left ankle roll'')]"

definition RightLeg :: node where
  "RightLeg =
    [(''hip_roll'', Str ''right hip roll''),
     (''hip_yaw'', Str ''right hip yaw''),
     (''hip_pitch'', Str ''right hip pitch''),
     (''knee_pitch'', Str ''right knee pitch''),
     (''ankle_pitch'', Str ''right ankle pitch''),
     (''ankle_roll'', Str ''right ankle roll'')]"

definition Legs :: node where
  "Legs = [(''left'', Inst LeftLeg), (''right'', Inst RightLeg)]"

definition Stompy :: node where
  "Stompy =
    [(''legs'', Inst Legs),
     (''default_positions'', Other),
     (''default_standing'', Other),
     (''default_limits'', Other),
     (''stiffness'', Other),
     (''damping'', Other),
     (''effort'', Other),
     (''velocity'', Other),
     (''friction'', Other)]"

text \<open>The per-joint and per-category tables of \<^verbatim>\<open>Stompy\<close>, in declaration order.\<close>

definition default_standing :: "real dict" where
  "default_standing =
    [(''left hip pitch'', -1.2),
     (''left hip yaw'', 1.06),
     (''left hip roll'', -0.03),
     (''left knee pitch'', -1.27),
     (''left ankle pitch'', 0.173),
     (''left ankle roll'', 1.75),
     (''right hip pitch'', 0.42),
     (''right hip yaw'', -2.08),
     (''right hip roll'', -1.65),
     (''right knee pitch'', 3.3),
     (''right ankle pitch'', 0.742),
     (''right ankle roll'', 1.69)]"

definition default_limits :: "(real dict) dict" where
  "default_limits =
    [(''left hip pitch'', [(''lower'', -2.2), (''upper'', -0.2)]),
     (''left hip yaw'', [(''lower'', 0.6), (''upper'', 1.2)]),
     (''left hip roll'', [(''lower'', -1.03), (''upper'', 0.97)]),
     (''left knee pitch'', [(''lower'', -2.27), (''upper'', -0.27)]),
     (''left ankle pitch'', [(''lower'', -0.827), (''upper'', 1.173)]),
     (''left ankle roll'', [(''lower'', 0.75), (''upper'', 2.75)]),
     (''right hip pitch'', [(''lower'', -0.58), (''upper'', 1.42)]),
     (''right hip yaw'', [(''lower'', -2.2), (''upper'', -1.6)]),
     (''right hip roll'', [(''lower'', -2.65), (''upper'', -0.65)]),
     (''right knee pitch'', [(''lower'', 2.3), (''upper'', 4.3)]),
     (''right ankle pitch'', [(''lower'', -0.258), (''upper'', 1.742)]),
     (''right ankle roll'', [(''lower'', 0.69), (''upper'', 2.69)])]"

definition stiffness :: "real dict" where
  "stiffness =
    [(''hip pitch'', 250), (''hip yaw'', 150), (''hip roll'', 150),
     (''knee pitch'', 150), (''ankle pitch'', 40), (''ankle roll'', 40)]"

definition damping :: "real dict" where
  "damping =
    [(''hip pitch'', 10), (''hip yaw'', 7), (''hip roll'', 7),
     (''knee pitch'', 7), (''ankle pitch'', 1), (''ankle roll'', 0.3)]"

definition effort :: "real dict" where
  "effort =
    [(''hip pitch'', 150), (''hip yaw'', 90), (''hip roll'', 90),
     (''knee pitch'', 90), (''ankle pitch'', 24), (''ankle roll'', 24)]"

definition velocity :: "real dict" where
  "velocity =
    [(''hip pitch'', 40), (''hip yaw'', 40), (''hip roll'', 40),
     (''knee pitch'', 40), (''ankle pitch'', 24), (''ankle roll'', 24)]"

definition friction :: "real dict" where
  "friction =
    [(''hip pitch'', 0.0), (''hip yaw'', 0.0), (''hip roll'', 0.0),
     (''knee pitch'', 0.0), (''ankle pitch'', 0.0), (''ankle roll'', 0.1)]"

text \<open>
  \<^verbatim>\<open>print_joints\<close> asserts that the flattened list has as many entries as the set of
  its entries, and prints the tree (the printing is left out).
\<close>

definition print_joints :: "node \<Rightarrow> error + unit" where
  "print_joints robot =
     (let joints = all_joints robot
      in if length joints = card (set joints) then Inr ()
         else Inl (AssertionError ''Duplicate joint names found!''))"

section \<open>Category lookups by substring\<close>

text \<open>
  The two iterations of \<^verbatim>\<open>run_id_test\<close> that resolve the gains:
  \<^verbatim>\<open>for joint_name, value in table.items(): if joint_name in joint_id: k = value; break\<close>,
  started from the value \<open>k\<close> had before the loop.
\<close>

fun lookup_break :: "real dict \<Rightarrow> string \<Rightarrow> real \<Rightarrow> real" where
  "lookup_break [] joint_id k = k"
| "lookup_break ((joint_name, v) # rest) joint_id k =
     (if str_in joint_name joint_id then v else lookup_break rest joint_id k)"

text \<open>
  The three iterations of \<^verbatim>\<open>update_urdf\<close>:
  \<^verbatim>\<open>for key, value in table.items(): if key in joint_name: elem.set(attribute, str(value))\<close>.
  The attribute is followed as the number written to it last, \<open>None\<close> while the loop
  has written nothing and the element keeps what the file had.
\<close>

fun set_matching :: "real dict \<Rightarrow> string \<Rightarrow> real option \<Rightarrow> real option" where
  "set_matching [] joint_name a = a"
| "set_matching ((key, v) # rest) joint_name a =
     (if str_in key joint_name then set_matching rest joint_name (Some v)
      else set_matching rest joint_name a)"

text \<open>The categories of a table that occur in a joint name, in table order.\<close>

definition matching :: "'v dict \<Rightarrow> string \<Rightarrow> string list" where
  "matching table joint = filter (\<lambda>key. str_in key joint) (keys table)"

text \<open>
  What \<^verbatim>\<open>update_urdf\<close> does to one \<^verbatim>\<open>joint\<close> element that has a \<^verbatim>\<open>limit\<close> and a
  \<^verbatim>\<open>dynamics\<close> child: \<open>None\<close> when it makes the joint fixed, otherwise the numbers
  it writes.  \<^verbatim>\<open>dict.get(key, default)\<close> gives the default for a missing key.
\<close>

record urdf_written =
  w_lower :: real
  w_upper :: real
  w_effort :: "real option"
  w_velocity :: "real option"
  w_friction :: "real option"

definition dict_get_default :: "'v dict \<Rightarrow> string \<Rightarrow> 'v \<Rightarrow> 'v" where
  "dict_get_default d k dflt = (case map_of d k of None \<Rightarrow> dflt | Some v \<Rightarrow> v)"

definition update_urdf_joint :: "string \<Rightarrow> urdf_written option" where
  "update_urdf_joint joint_name =
     (if joint_name \<notin> set (keys default_standing) then None
      else
        let limits = dict_get_default default_limits joint_name []
        in Some \<lparr> w_lower = dict_get_default limits ''lower'' 0.0,
                  w_upper = dict_get_default limits ''upper'' 0.0,
                  w_effort = set_matching effort joint_name None,
                  w_velocity = set_matching velocity joint_name None,
                  w_friction = set_matching friction joint_name None \<rparr>)"

section \<open>The control law and the calibration script (\<^verbatim>\<open>scripts/calibration.py\<close>)\<close>

definition pd_control :: "real \<Rightarrow> real \<Rightarrow> real \<Rightarrow> real \<Rightarrow> real \<Rightarrow> real \<Rightarrow> real" where
  "pd_control target_q q kp dq kd default' = kp * (target_q + default' - q) - kd * dq"

text \<open>\<^verbatim>\<open>torch.clip(x, lo, hi)\<close> on one entry.\<close>

definition clip :: "real \<Rightarrow> real \<Rightarrow> real \<Rightarrow> real" where
  "clip x lo hi = min (max x lo) hi"

text \<open>
  The script takes its robot class from \<^verbatim>\<open>sim.resources.stompymini.joints\<close>, which is
  not among the sources, so the class is a parameter: the results of the four class
  methods the script calls.  \<open>stompy_legs\<close> is the class of \<^verbatim>\<open>stompy_legs/joints.py\<close>.
\<close>

record robot =
  r_all_joints :: "string list"
  r_default_standing :: "real dict"
  r_stiffness :: "real dict"
  r_damping :: "real dict"

definition stompy_legs :: robot where
  "stompy_legs = \<lparr> r_all_joints = all_joints Stompy, r_default_standing = default_standing,
                   r_stiffness = stiffness, r_damping = damping \<rparr>"

text \<open>
  The physics engine is an oracle on a simulation state \<open>'sim\<close>.  \<open>sim_step\<close> is the
  block \<^verbatim>\<open>simulate; fetch_results; step_graphics; draw_viewer; sync_frame_time\<close>;
  the DOF state tensor is one (position, velocity) pair per degree of freedom.
\<close>

record 'sim gym_api =
  sim_step :: "'sim \<Rightarrow> 'sim"
  set_dof_actuation_force_tensor :: "real list \<Rightarrow> 'sim \<Rightarrow> 'sim"
  refresh_dof_state_tensor :: "'sim \<Rightarrow> 'sim"
  acquire_dof_state_tensor :: "'sim \<Rightarrow> (real \<times> real) list"

text \<open>\<^verbatim>\<open>for _ in range(k)\<close> around a body that may raise.\<close>

fun repeat_err :: "nat \<Rightarrow> ('s \<Rightarrow> error + 's) \<Rightarrow> 's \<Rightarrow> error + 's" where
  "repeat_err 0 body s = Inr s"
| "repeat_err (Suc k) body s =
     (case body s of Inl e \<Rightarrow> Inl e | Inr s' \<Rightarrow> repeat_err k body s')"

text \<open>
  \<^verbatim>\<open>dof_state.view(1, num_dof, 2)\<close> raises when the tensor does not hold
  \<open>num_dof\<close> pairs.
\<close>

definition view_dof :: "nat \<Rightarrow> (real \<times> real) list \<Rightarrow> error + (real list \<times> real list)" where
  "view_dof num_dof dof_state =
     (if length dof_state = num_dof then Inr (map fst dof_state, map snd dof_state)
      else Inl (RuntimeError ''view''))"

text \<open>
  The local variables \<^verbatim>\<open>run_id_test\<close> fixes before it branches on the mode.
  \<open>num_dof\<close> is \<^verbatim>\<open>len(Stompy.all_joints())\<close>; \<open>joint_id\<close> is the engine index the
  name is rebound to, \<open>joint_name\<close> the name it had.
\<close>

record run_locals =
  num_dof :: nat
  default_pos :: real
  kp :: real
  kd :: real
  joint_name :: string
  joint_id :: nat
  steps :: nat
  dt :: real
  decimation :: nat
  torque_limits :: real
  TORQUE_SOFT :: real

text \<open>
  The head of \<^verbatim>\<open>run_id_test\<close>.  The arrays \<^verbatim>\<open>tau_limit\<close>, \<^verbatim>\<open>kps\<close> and \<^verbatim>\<open>kds\<close> it
  also builds are never read and are left out.
\<close>

definition run_id_test_locals :: "robot \<Rightarrow> nat dict \<Rightarrow> string \<Rightarrow> error + run_locals" where
  "run_id_test_locals Robot dof_ids name =
     (case dict_get (r_default_standing Robot) name of
        Inl e \<Rightarrow> Inl e
      | Inr dpos \<Rightarrow>
          let d = lookup_break (r_damping Robot) name 10;
              p = lookup_break (r_stiffness Robot) name 250
          in (case dict_get dof_ids name of
                Inl e \<Rightarrow> Inl e
              | Inr idx \<Rightarrow>
                  Inr \<lparr> num_dof = length (r_all_joints Robot), default_pos = dpos,
                        kp = p, kd = d, joint_name = name, joint_id = idx,
                        steps = 10000, dt = 0.001, decimation = 5,
                        torque_limits = 18, TORQUE_SOFT = 18 \<rparr>))"

subsection \<open>Mode \<^verbatim>\<open>calibration\<close>: the static sweep\<close>

text \<open>
  The state of a ramp: the torque tensor, the last position read \<open>q\<close>, the simulation.
  One pass of the body of \<^verbatim>\<open>for _ in range(decimation)\<close> writes the torque of the
  target joint, commands the tensor, reads the joint's position and steps the physics.
\<close>

type_synonym 'sim sweep_state = "real list \<times> real \<times> 'sim"

definition sweep_substep ::
  "'sim gym_api \<Rightarrow> run_locals \<Rightarrow> real \<Rightarrow> 'sim sweep_state \<Rightarrow> error + 'sim sweep_state" where
  "sweep_substep gym L tau st =
     (case st of (torques, q, sim) \<Rightarrow>
        if \<not> joint_id L < length torques then Inl IndexError
        else
          let torques' = torques[joint_id L := tau];
              sim' = set_dof_actuation_force_tensor gym torques' sim
          in (case view_dof (num_dof L) (acquire_dof_state_tensor gym sim') of
                Inl e \<Rightarrow> Inl e
              | Inr (dof_pos, dof_vel) \<Rightarrow>
                  if \<not> joint_id L < length dof_pos then Inl IndexError
                  else Inr (torques', dof_pos ! joint_id L, sim_step gym sim')))"

text \<open>
  \<^verbatim>\<open>while step < steps/40\<close>: \<open>decimation\<close> sub-steps, then
  \<^verbatim>\<open>positions.append(q.item())\<close> and \<^verbatim>\<open>step += 1\<close>.
\<close>

function ramp ::
  "'sim gym_api \<Rightarrow> run_locals \<Rightarrow> real \<Rightarrow> nat \<Rightarrow> 'sim sweep_state \<times> real list \<Rightarrow>
   error + ('sim sweep_state \<times> real list)" where
  "ramp gym L tau step (st, positions) =
     (if real step < real (steps L) / 40 then
        (case repeat_err (decimation L) (sweep_substep gym L tau) st of
           Inl e \<Rightarrow> Inl e
         | Inr st' \<Rightarrow> ramp gym L tau (step + 1) (st', positions @ [fst (snd st')]))
      else Inr (st, positions))"
  by pat_completeness auto
termination
  by (relation "measure (\<lambda>(gym, L, tau, step, s). steps L - 40 * step)") auto

declare ramp.simps [simp del]

text \<open>What a run persists with \<^verbatim>\<open>np.savez\<close>: the file name and its arrays.\<close>

datatype saved =
    Positions string "real list"
  | Series string "nat list" "real list" "real list"

definition run_calibration :: "'sim gym_api \<Rightarrow> run_locals \<Rightarrow> 'sim \<Rightarrow> error + ('sim \<times> saved)" where
  "run_calibration gym L sim =
     (let sim = (sim_step gym ^^ 100) sim;
          torques = replicate (num_dof L) 0
      in case ramp gym L (TORQUE_SOFT L) 0 ((torques, 0, sim), []) of
           Inl e \<Rightarrow> Inl e
         | Inr (st, positions) \<Rightarrow>
             (case ramp gym L (- TORQUE_SOFT L) 0 (st, positions) of
                Inl e \<Rightarrow> Inl e
              | Inr ((torques, q, sim), positions) \<Rightarrow>
                  Inr (sim, Positions (joint_name L @ ''_calibration.npz'') positions)))"

subsection \<open>Mode \<^verbatim>\<open>sin_id\<close>: sinusoidal identification\<close>

text \<open>
  \<^verbatim>\<open>for joint, val in Stompy.default_standing().items(): set_positions[:, gym.dof_ids[joint]] = val\<close>
\<close>

fun set_defaults :: "nat dict \<Rightarrow> real dict \<Rightarrow> real list \<Rightarrow> error + real list" where
  "set_defaults dof_ids [] set_positions = Inr set_positions"
| "set_defaults dof_ids ((joint, val) # rest) set_positions =
     (case dict_get dof_ids joint of
        Inl e \<Rightarrow> Inl e
      | Inr i \<Rightarrow>
          if i < length set_positions
          then set_defaults dof_ids rest (set_positions[i := val])
          else Inl IndexError)"

text \<open>
  The set-point tensor of one sub-step: zeros, then the standing angles, then the
  reference written over the target joint's entry.
\<close>

definition set_positions_of ::
  "nat dict \<Rightarrow> real dict \<Rightarrow> run_locals \<Rightarrow> real \<Rightarrow> error + real list" where
  "set_positions_of dof_ids standing L sin_pos =
     (case set_defaults dof_ids standing (replicate (num_dof L) 0) of
        Inl e \<Rightarrow> Inl e
      | Inr set_positions \<Rightarrow>
          if joint_id L < length set_positions
          then Inr (set_positions[joint_id L := sin_pos])
          else Inl IndexError)"

text \<open>
  The torque tensor one sub-step commands: the loop over \<^verbatim>\<open>enumerate(set_positions[0])\<close>
  calling \<^verbatim>\<open>pd_control(sin_pos, dof_pos[0, id], kp, dof_vel[0, id], kd, pos)\<close>, then
  \<^verbatim>\<open>torch.clip\<close>.  Reading \<^verbatim>\<open>dof_pos\<close> or \<^verbatim>\<open>dof_vel\<close> past its end raises.
\<close>

definition track_torques ::
  "nat dict \<Rightarrow> real dict \<Rightarrow> run_locals \<Rightarrow> real \<Rightarrow> real list \<Rightarrow> real list \<Rightarrow> error + real list" where
  "track_torques dof_ids standing L sin_pos dof_pos dof_vel =
     (case set_positions_of dof_ids standing L sin_pos of
        Inl e \<Rightarrow> Inl e
      | Inr set_positions \<Rightarrow>
          if length dof_pos < length set_positions \<or> length dof_vel < length set_positions
          then Inl IndexError
          else
            let set_torques =
                  map (\<lambda>id. pd_control sin_pos (dof_pos ! id) (kp L) (dof_vel ! id) (kd L)
                               (set_positions ! id))
                    [0 ..< length set_positions]
            in Inr (map (\<lambda>t. clip t (- torque_limits L) (torque_limits L)) set_torques))"

record 'sim track_state =
  dof_pos :: "real list"
  dof_vel :: "real list"
  q :: real
  dq :: real
  sim :: 'sim

text \<open>
  One pass of the body of \<^verbatim>\<open>for _ in range(decimation)\<close> in the tracking loop: command
  the clipped torques, refresh and read the DOF state.  The \<^verbatim>\<open>breakpoint()\<close> of the
  source is a debugger pause and is left out.
\<close>

definition track_substep ::
  "'sim gym_api \<Rightarrow> nat dict \<Rightarrow> real dict \<Rightarrow> run_locals \<Rightarrow> real \<Rightarrow> 'sim track_state \<Rightarrow>
   error + 'sim track_state" where
  "track_substep gym dof_ids standing L sin_pos st =
     (case track_torques dof_ids standing L sin_pos (dof_pos st) (dof_vel st) of
        Inl e \<Rightarrow> Inl e
      | Inr torques \<Rightarrow>
          let sim' = refresh_dof_state_tensor gym
                       (set_dof_actuation_force_tensor gym torques (sim st))
          in (case view_dof (num_dof L) (acquire_dof_state_tensor gym sim') of
                Inl e \<Rightarrow> Inl e
              | Inr (pos, vel) \<Rightarrow>
                  if \<not> joint_id L < length pos then Inl IndexError
                  else Inr \<lparr> dof_pos = pos, dof_vel = vel, q = pos ! joint_id L,
                             dq = vel ! joint_id L, sim = sim' \<rparr>))"

text \<open>\<^verbatim>\<open>while step < 100\<close>: the settle phase.\<close>

function settle :: "'sim gym_api \<Rightarrow> nat \<Rightarrow> 'sim \<Rightarrow> nat \<times> 'sim" where
  "settle gym step s = (if step < 100 then settle gym (step + 1) (sim_step gym s) else (step, s))"
  by pat_completeness auto
termination
  by (relation "measure (\<lambda>(gym, step, s). 100 - step)") auto

declare settle.simps [simp del]

text \<open>The reference of tick \<open>step\<close>: \<^verbatim>\<open>math.sin(2 * math.pi * step * dt / 0.64)\<close>.\<close>

definition sin_pos_at :: "run_locals \<Rightarrow> nat \<Rightarrow> real" where
  "sin_pos_at L step = sin (2 * pi * real step * dt L / 0.64)"

text \<open>
  \<^verbatim>\<open>while step < 10000\<close>: the tracking phase.  Each tick steps the physics once,
  runs \<open>decimation\<close> sub-steps and appends one sample to each of the three lists.
\<close>

type_synonym traces = "nat list \<times> real list \<times> real list"

function track ::
  "'sim gym_api \<Rightarrow> nat dict \<Rightarrow> real dict \<Rightarrow> run_locals \<Rightarrow> nat \<Rightarrow> 'sim track_state \<times> traces \<Rightarrow>
   error + ('sim track_state \<times> traces)" where
  "track gym dof_ids standing L step (st, time_data, position_data, velocity_data) =
     (if step < 10000 then
        (case repeat_err (decimation L)
                (track_substep gym dof_ids standing L (sin_pos_at L step))
                (st\<lparr>sim := sim_step gym (sim st)\<rparr>) of
           Inl e \<Rightarrow> Inl e
         | Inr st' \<Rightarrow>
             track gym dof_ids standing L (step + 1)
               (st', time_data @ [step], position_data @ [q st' - default_pos L],
                velocity_data @ [dq st']))
      else Inr (st, time_data, position_data, velocity_data))"
  by pat_completeness auto
termination
  by (relation "measure (\<lambda>(gym, dof_ids, standing, L, step, s). 10000 - step)") auto

declare track.simps [simp del]

definition run_sin_id ::
  "'sim gym_api \<Rightarrow> nat dict \<Rightarrow> real dict \<Rightarrow> run_locals \<Rightarrow> 'sim \<Rightarrow> error + ('sim \<times> saved)" where
  "run_sin_id gym dof_ids standing L s =
     (case settle gym 0 s of (step, s') \<Rightarrow>
        (case track gym dof_ids standing L step
                (\<lparr> dof_pos = replicate (num_dof L) 0, dof_vel = replicate (num_dof L) 0,
                    q = 0, dq = 0, sim = s' \<rparr>, [], [], []) of
           Inl e \<Rightarrow> Inl e
         | Inr (st, time_data, position_data, velocity_data) \<Rightarrow>
             Inr (sim st, Series ''simulaion.npz'' time_data position_data velocity_data)))"

text \<open>\<^verbatim>\<open>run_id_test\<close> and the driver loop of \<^verbatim>\<open>main\<close>.\<close>

definition run_id_test ::
  "'sim gym_api \<Rightarrow> robot \<Rightarrow> nat dict \<Rightarrow> 'sim \<Rightarrow> string \<Rightarrow> string \<Rightarrow> error + ('sim \<times> saved)" where
  "run_id_test gym Robot dof_ids s name mode =
     (case run_id_test_locals Robot dof_ids name of
        Inl e \<Rightarrow> Inl e
      | Inr L \<Rightarrow>
          if mode = ''calibration'' then run_calibration gym L s
          else if mode = ''sin_id'' then run_sin_id gym dof_ids (r_default_standing Robot) L s
          else Inl (ValueError ''Invalid mode''))"

text \<open>
  The loop of \<^verbatim>\<open>main\<close> over \<^verbatim>\<open>Stompy.default_standing().keys()\<close>, with the call of
  \<^verbatim>\<open>run_id_test\<close> as the parameter \<open>run\<close>.
\<close>

fun main_loop :: "(string \<Rightarrow> 's \<Rightarrow> error + 's) \<Rightarrow> string list \<Rightarrow> 's \<Rightarrow> error + 's" where
  "main_loop run [] g = Inr g"
| "main_loop run (joint # rest) g =
     (if str_in ''shoulder'' joint then main_loop run rest g
      else if str_in ''elbow'' joint then main_loop run rest g
      else if str_in ''wrist'' joint then main_loop run rest g
      else if str_in ''ankle'' joint then
        (case run joint g of Inl e \<Rightarrow> Inl e | Inr g' \<Rightarrow> main_loop run rest g')
      else main_loop run rest g)"

definition main ::
  "'sim gym_api \<Rightarrow> robot \<Rightarrow> nat dict \<Rightarrow> 'sim \<Rightarrow> error + ('sim \<times> saved list)" where
  "main gym Robot dof_ids s =
     main_loop
       (\<lambda>joint (s, out).
          case run_id_test gym Robot dof_ids s joint ''calibration'' of
            Inl e \<Rightarrow> Inl e
          | Inr (s', file) \<Rightarrow> Inr (s', out @ [file]))
       (keys (r_default_standing Robot)) (s, [])"

text \<open>The joints the loop of \<^verbatim>\<open>main\<close> calls \<^verbatim>\<open>run_id_test\<close> for, in call order.\<close>

definition main_calls :: "string list \<Rightarrow> error + string list" where
  "main_calls js = main_loop (\<lambda>joint called. Inr (called @ [joint])) js []"

section \<open>The specification's wording, for comparison\<close>

text \<open>
  The enumeration the specification describes for \<^verbatim>\<open>all_joints\<close>: depth-first,
  left to right in declaration order.
\<close>

fun spec_all_joints :: "node \<Rightarrow> string list" where
  "spec_all_joints cls =
     concat (map (\<lambda>(a, v). case v of Str s \<Rightarrow> [s] | Inst c \<Rightarrow> spec_all_joints c | Other \<Rightarrow> [])
               cls)"

text \<open>
  The joint selection the specification describes for the driver loop: every joint of
  the flattened taxonomy outside the exclusion set.
\<close>

definition spec_selected :: "string list \<Rightarrow> string list" where
  "spec_selected taxonomy =
     filter (\<lambda>joint. \<not> (str_in ''shoulder'' joint \<or> str_in ''elbow'' joint \<or>
                         str_in ''wrist'' joint \<or> str_in ''ankle'' joint)) taxonomy"

section \<open>Auxiliary notions for the statements\<close>

text \<open>Running \<open>run\<close> once for each joint of a list, in order, up to the first error.\<close>

fun run_each :: "(string \<Rightarrow> 's \<Rightarrow> error + 's) \<Rightarrow> string list \<Rightarrow> 's \<Rightarrow> error + 's" where
  "run_each run [] g = Inr g"
| "run_each run (joint # rest) g =
     (case run joint g of Inl e \<Rightarrow> Inl e | Inr g' \<Rightarrow> run_each run rest g')"

text \<open>The joints the guards of \<^verbatim>\<open>main\<close> let through.\<close>

definition ankle_only :: "string \<Rightarrow> bool" where
  "ankle_only joint =
     (\<not> str_in ''shoulder'' joint \<and> \<not> str_in ''elbow'' joint \<and>
      \<not> str_in ''wrist'' joint \<and> str_in ''ankle'' joint)"

text \<open>A joint name contains a category of each of the five tables.\<close>

definition category_found :: "string \<Rightarrow> bool" where
  "category_found joint =
     (matching stiffness joint \<noteq> [] \<and> matching damping joint \<noteq> [] \<and>
      matching effort joint \<noteq> [] \<and> matching velocity joint \<noteq> [] \<and>
      matching friction joint \<noteq> [])"

text \<open>
  A joint has a standing angle and both travel limits, and the angle lies between the
  limits.
\<close>

definition limits_around_default :: "string \<Rightarrow> bool" where
  "limits_around_default joint =
     (case map_of default_standing joint of
        None \<Rightarrow> False
      | Some d \<Rightarrow>
          (case map_of default_limits joint of
             None \<Rightarrow> False
           | Some limits \<Rightarrow>
               (case map_of limits ''lower'' of
                  None \<Rightarrow> False
                | Some lo \<Rightarrow>
                    (case map_of limits ''upper'' of
                       None \<Rightarrow> False
                     | Some hi \<Rightarrow> lo \<le> d \<and> d \<le> hi))))"

text \<open>
  \<^verbatim>\<open>update_urdf\<close> treats the joint as revolute, writes an effort, a velocity and a
  friction for it, and the limits it writes lie around the joint's standing angle.
\<close>

definition urdf_values_written :: "string \<Rightarrow> bool" where
  "urdf_values_written joint =
     (case update_urdf_joint joint of
        None \<Rightarrow> False
      | Some w \<Rightarrow>
          w_effort w \<noteq> None \<and> w_velocity w \<noteq> None \<and> w_friction w \<noteq> None \<and>
          (case map_of default_standing joint of
             None \<Rightarrow> False
           | Some d \<Rightarrow> w_lower w \<le> d \<and> d \<le> w_upper w))"



text \<open>A robot with an arm joint, whose name contains none of the categories.\<close>

definition arm_robot :: robot where
  "arm_robot = \<lparr> r_all_joints = [''left shoulder yaw'', ''left elbow''],
                 r_default_standing = [(''left shoulder yaw'', 0.5), (''left elbow'', 0.25)],
                 r_stiffness = stiffness, r_damping = damping \<rparr>"



text \<open>
  Every joint of a list has an engine index below \<open>n\<close>; the tensors the tracking loop
  carries have one entry per degree of freedom.
\<close>

definition ids_in_range :: "nat dict \<Rightarrow> string list \<Rightarrow> nat \<Rightarrow> bool" where
  "ids_in_range dof_ids js n =
     list_all (\<lambda>joint. case map_of dof_ids joint of None \<Rightarrow> False | Some i \<Rightarrow> i < n) js"

definition track_inv :: "run_locals \<Rightarrow> 'sim track_state \<Rightarrow> bool" where
  "track_inv L st = (length (dof_pos st) = num_dof L \<and> length (dof_vel st) = num_dof L)"

text \<open>
  A concrete setting: the reference robot with the engine indices in the order of
  \<^verbatim>\<open>all_joints\<close>, the local variables of a run on the left knee, the standing pose as
  a position tensor, the pose with every joint 0.05 below its standing angle, an
  engine that keeps the robot in the standing pose at rest, and the state of the
  tracking phase in that pose.
\<close>

definition legs_dof_ids :: "nat dict" where
  "legs_dof_ids =
     [(''left ankle pitch'', 0), (''left ankle roll'', 1), (''left hip pitch'', 2),
      (''left hip roll'', 3), (''left hip yaw'', 4), (''left knee pitch'', 5),
      (''right ankle pitch'', 6), (''right ankle roll'', 7), (''right hip pitch'', 8),
      (''right hip roll'', 9), (''right hip yaw'', 10), (''right knee pitch'', 11)]"


definition standing_pos :: "real list" where
  "standing_pos = [0.173, 1.75, -1.2, -0.03, 1.06, -1.27, 0.742, 1.69, 0.42, -1.65, -2.08, 3.3]"


definition still_gym :: "nat gym_api" where
  "still_gym = \<lparr> sim_step = Suc, set_dof_actuation_force_tensor = (\<lambda>torques s. s),
                  refresh_dof_state_tensor = (\<lambda>s. s),
                  acquire_dof_state_tensor = (\<lambda>s. map (\<lambda>x. (x, 0)) standing_pos) \<rparr>"


section \<open>Properties\<close>

subsection \<open>Helper facts\<close>

text \<open>
  The list of ticks \<open>[100 ..< 10000]\<close> is kept as it is: the simplifier must not
  enumerate it.
\<close>

declare upt_rec_numeral [simp del]

lemma all_joints_Stompy:
  "all_joints Stompy =
     [''left ankle pitch'', ''left ankle roll'', ''left hip pitch'',
      ''left hip roll'', ''left hip yaw'', ''left knee pitch'',
      ''right ankle pitch'', ''right ankle roll'', ''right hip pitch'',
      ''right hip roll'', ''right hip yaw'', ''right knee pitch'']"
  by code_simp

lemma spec_all_joints_Stompy:
  "spec_all_joints Stompy =
     [''left hip roll'', ''left hip yaw'', ''left hip pitch'',
      ''left knee pitch'', ''left ankle pitch'', ''left ankle roll'',
      ''right hip roll'', ''right hip yaw'', ''right hip pitch'',
      ''right knee pitch'', ''right ankle pitch'', ''right ankle roll'']"
  by (simp add: Stompy_def Legs_def LeftLeg_def RightLeg_def)

lemma public_attrs_sorted:
  "sorted (public_attrs cls) \<and> distinct (public_attrs cls) \<and>
   set (public_attrs cls) = {a \<in> fst ` set cls. \<not> startswith a ''__''}"
  by (auto simp: public_attrs_def dir_def sorted_filter [where f = "\<lambda>x. x", simplified])

lemma main_loop_filter: "main_loop run js g = run_each run (filter ankle_only js) g"
  by (induction js arbitrary: g) (auto simp: ankle_only_def split: sum.splits)

lemma run_each_record: "run_each (\<lambda>joint called. Inr (called @ [joint])) js acc = Inr (acc @ js)"
  by (induction js arbitrary: acc) auto



lemma lookup_break_none: "matching table name = [] \<Longrightarrow> lookup_break table name k = k"
  by (induction table) (auto simp: matching_def keys_def split: if_splits)

lemma ids_in_range_Cons:
  "ids_in_range dof_ids (j # js) n =
     ((case map_of dof_ids j of None \<Rightarrow> False | Some i \<Rightarrow> i < n) \<and> ids_in_range dof_ids js n)"
  by (simp add: ids_in_range_def)

lemma ids_in_range_mem:
  "ids_in_range dof_ids js n \<Longrightarrow> j \<in> set js \<Longrightarrow> \<exists>i < n. map_of dof_ids j = Some i"
  by (auto simp: ids_in_range_def list_all_iff split: option.splits)

lemma set_defaults_ok:
  "ids_in_range dof_ids (keys standing) (length sp) \<Longrightarrow>
   \<exists>sp'. set_defaults dof_ids standing sp = Inr sp' \<and> length sp' = length sp"
proof (induction standing arbitrary: sp)
  case Nil
  then show ?case by simp
next
  case (Cons jv standing)
  obtain joint val where jv: "jv = (joint, val)" by (cases jv)
  from Cons.prems jv obtain i where i: "map_of dof_ids joint = Some i" "i < length sp"
    and rest: "ids_in_range dof_ids (keys standing) (length sp)"
    by (auto simp: keys_def ids_in_range_Cons split: option.splits)
  from rest have "ids_in_range dof_ids (keys standing) (length (sp[i := val]))" by simp
  from Cons.IH [OF this] i jv show ?case by (simp add: dict_get_def)
qed


lemma repeat_err_inv:
  assumes "\<And>s. I s \<Longrightarrow> \<exists>s'. body s = Inr s' \<and> I s'" and "I s"
  shows "\<exists>s'. repeat_err k body s = Inr s' \<and> I s'"
  using assms(2)
proof (induction k arbitrary: s)
  case 0
  then show ?case by simp
next
  case (Suc k)
  from assms(1) [OF Suc.prems] obtain s1 where s1: "body s = Inr s1" "I s1" by blast
  from Suc.IH [OF s1(2)] s1(1) show ?case by simp
qed

lemma sweep_substep_ok:
  assumes "joint_id L < num_dof L"
    and "\<forall>s. length (acquire_dof_state_tensor gym s) = num_dof L"
    and "length (fst st) = num_dof L"
  shows "\<exists>st'. sweep_substep gym L tau st = Inr st' \<and> length (fst st') = num_dof L"
  using assms by (cases st) (simp add: sweep_substep_def view_dof_def Let_def)

lemma ramp_ok:
  assumes tgt: "joint_id L < num_dof L"
    and acq: "\<forall>s. length (acquire_dof_state_tensor gym s) = num_dof L"
    and steps: "steps L = 10000"
  shows "length (fst st) = num_dof L \<Longrightarrow> step \<le> 250 \<Longrightarrow>
     \<exists>st' new. ramp gym L tau step (st, positions) = Inr (st', positions @ new) \<and>
        length new = 250 - step \<and> length (fst st') = num_dof L"
proof (induction "250 - step" arbitrary: step st positions)
  case 0
  then have "\<not> real step < real (steps L) / 40" using steps by simp
  then have "ramp gym L tau step (st, positions) = Inr (st, positions @ [])"
    by (subst ramp.simps) simp
  with 0 show ?case by auto
next
  case (Suc n)
  then have lt: "step < 250" by simp
  have "\<exists>st'. repeat_err (decimation L) (sweep_substep gym L tau) st = Inr st' \<and>
          length (fst st') = num_dof L"
    by (rule repeat_err_inv [where I = "\<lambda>st. length (fst st) = num_dof L"])
       (use sweep_substep_ok [OF tgt acq] Suc.prems in auto)
  then obtain st1 where st1: "repeat_err (decimation L) (sweep_substep gym L tau) st = Inr st1"
      "length (fst st1) = num_dof L" by blast
  have n: "n = 250 - (step + 1)" using Suc.hyps(2) by simp
  from Suc.hyps(1) [OF n st1(2), of "positions @ [fst (snd st1)]"] lt
  obtain st' new where r: "ramp gym L tau (step + 1) (st1, positions @ [fst (snd st1)])
        = Inr (st', (positions @ [fst (snd st1)]) @ new)"
      "length new = 250 - (step + 1)" "length (fst st') = num_dof L"
    by auto
  have "ramp gym L tau step (st, positions) = Inr (st', positions @ (fst (snd st1) # new))"
    using lt steps st1(1) r(1) by (simp add: ramp.simps [of _ _ _ step])
  moreover have "length (fst (snd st1) # new) = 250 - step" using r(2) lt by simp
  ultimately show ?case using r(3) by blast
qed

lemma ramp_append:
  "ramp gym L tau step (st, ps @ qs) =
     (case ramp gym L tau step (st, qs) of
        Inl e \<Rightarrow> Inl e
      | Inr (st', new) \<Rightarrow> Inr (st', ps @ new))"
proof (induction "steps L - 40 * step" arbitrary: step st qs rule: less_induct)
  case less
  show ?case
  proof (cases "real step < real (steps L) / 40")
    case False
    then show ?thesis by (simp add: ramp.simps [of _ _ _ step])
  next
    case True
    then have m: "steps L - 40 * (step + 1) < steps L - 40 * step" by simp
    show ?thesis
    proof (cases "repeat_err (decimation L) (sweep_substep gym L tau) st")
      case (Inl e)
      with True show ?thesis by (simp add: ramp.simps [of _ _ _ step])
    next
      case (Inr st1)
      from less [OF m, of st1 "qs @ [fst (snd st1)]"] True Inr
      show ?thesis by (simp add: ramp.simps [of _ _ _ step])
    qed
  qed
qed

lemma settle_step: "step \<le> 100 \<Longrightarrow> fst (settle gym step s) = 100"
proof (induction "100 - step" arbitrary: step s)
  case 0
  then have "\<not> step < 100" by simp
  then have "settle gym step s = (step, s)" by (subst settle.simps) simp
  with 0 show ?case by simp
next
  case (Suc n)
  then have "n = 100 - (step + 1)" "step + 1 \<le> 100" "step < 100" by simp_all
  with Suc.hyps(1) [of "step + 1" "sim_step gym s"] show ?case
    by (simp add: settle.simps [of _ step])
qed

lemma track_torques_ok:
  assumes "ids_in_range dof_ids (keys standing) (num_dof L)"
    and "joint_id L < num_dof L"
    and "length pos = num_dof L" "length vel = num_dof L"
  shows "\<exists>torques. track_torques dof_ids standing L sin_pos pos vel = Inr torques"
proof -
  from assms(1) have "ids_in_range dof_ids (keys standing) (length (replicate (num_dof L) (0::real)))"
    by simp
  from set_defaults_ok [OF this] obtain sp
    where "set_defaults dof_ids standing (replicate (num_dof L) 0) = Inr sp" "length sp = num_dof L"
    by auto
  with assms show ?thesis
    by (simp add: track_torques_def set_positions_of_def Let_def)
qed

lemma track_substep_ok:
  assumes ids: "ids_in_range dof_ids (keys standing) (num_dof L)"
    and tgt: "joint_id L < num_dof L"
    and acq: "\<forall>s. length (acquire_dof_state_tensor gym s) = num_dof L"
    and inv: "track_inv L st"
  shows "\<exists>st'. track_substep gym dof_ids standing L sin_pos st = Inr st' \<and> track_inv L st'"
proof -
  from inv have "length (dof_pos st) = num_dof L" "length (dof_vel st) = num_dof L"
    by (simp_all add: track_inv_def)
  from track_torques_ok [OF ids tgt this] obtain torques
    where "track_torques dof_ids standing L sin_pos (dof_pos st) (dof_vel st) = Inr torques"
    by blast
  then show ?thesis using tgt acq
    by (simp add: track_substep_def view_dof_def Let_def track_inv_def)
qed

lemma track_ok:
  assumes ids: "ids_in_range dof_ids (keys standing) (num_dof L)"
    and tgt: "joint_id L < num_dof L"
    and acq: "\<forall>s. length (acquire_dof_state_tensor gym s) = num_dof L"
  shows "track_inv L st \<Longrightarrow> step \<le> 10000 \<Longrightarrow>
     \<exists>st' new_p new_v.
        track gym dof_ids standing L step (st, ts, ps, vs)
          = Inr (st', ts @ [step ..< 10000], ps @ new_p, vs @ new_v) \<and>
        length new_p = 10000 - step \<and> length new_v = 10000 - step"
proof (induction "10000 - step" arbitrary: step st ts ps vs)
  case 0
  then have "\<not> step < 10000" by simp
  then have "track gym dof_ids standing L step (st, ts, ps, vs) = Inr (st, ts, ps @ [], vs @ [])"
    by (subst track.simps) simp
  with 0 show ?case by auto
next
  case (Suc n)
  then have lt: "step < 10000" by simp
  have start: "track_inv L (st\<lparr>sim := sim_step gym (sim st)\<rparr>)"
    using Suc.prems(1) by (simp add: track_inv_def)
  have "\<exists>st'. repeat_err (decimation L)
            (track_substep gym dof_ids standing L (sin_pos_at L step))
            (st\<lparr>sim := sim_step gym (sim st)\<rparr>) = Inr st' \<and> track_inv L st'"
    by (rule repeat_err_inv [where I = "track_inv L"])
       (use track_substep_ok [OF ids tgt acq] start in auto)
  then obtain st1 where st1:
      "repeat_err (decimation L) (track_substep gym dof_ids standing L (sin_pos_at L step))
         (st\<lparr>sim := sim_step gym (sim st)\<rparr>) = Inr st1"
      "track_inv L st1" by blast
  have n: "n = 10000 - (step + 1)" using Suc.hyps(2) by simp
  from Suc.hyps(1) [OF n st1(2), of "ts @ [step]" "ps @ [q st1 - default_pos L]" "vs @ [dq st1]"] lt
  obtain st' new_p new_v where r:
      "track gym dof_ids standing L (step + 1)
         (st1, ts @ [step], ps @ [q st1 - default_pos L], vs @ [dq st1])
        = Inr (st', (ts @ [step]) @ [step + 1 ..< 10000],
               (ps @ [q st1 - default_pos L]) @ new_p, (vs @ [dq st1]) @ new_v)"
      "length new_p = 10000 - (step + 1)" "length new_v = 10000 - (step + 1)"
    by auto
  have up: "[step ..< 10000] = step # [step + 1 ..< 10000]"
    using lt by (simp add: upt_conv_Cons)
  have "track gym dof_ids standing L step (st, ts, ps, vs)
      = Inr (st', ts @ [step ..< 10000], ps @ ((q st1 - default_pos L) # new_p),
             vs @ (dq st1 # new_v))"
    using lt st1(1) r(1) up by (subst track.simps) simp
  moreover have "length ((q st1 - default_pos L) # new_p) = 10000 - step"
    and "length (dq st1 # new_v) = 10000 - step"
    using r(2,3) lt by simp_all
  ultimately show ?case by blast
qed

lemma locals_ok:
  assumes "map_of (r_default_standing R) name = Some d" and "map_of dof_ids name = Some i"
  shows "run_id_test_locals R dof_ids name
     = Inr \<lparr> num_dof = length (r_all_joints R), default_pos = d,
             kp = lookup_break (r_stiffness R) name 250, kd = lookup_break (r_damping R) name 10,
             joint_name = name, joint_id = i, steps = 10000, dt = 0.001,
             decimation = 5, torque_limits = 18, TORQUE_SOFT = 18 \<rparr>"
  using assms by (simp add: run_id_test_locals_def dict_get_def)

lemma keys_map_of: "name \<in> set (keys d) \<Longrightarrow> \<exists>v. map_of d name = Some v"
  by (metis keys_def map_of_eq_None_iff not_Some_eq set_map)





lemma legs_ids_in_range: "ids_in_range legs_dof_ids (keys default_standing) 12"
  by code_simp









subsection \<open>The control law\<close>

text \<open>
  Claim C5.  The control law returns \<open>kp * (target_q + default_q - current_q) - kd * current_dq\<close>
  for all inputs; in particular it gives 0, 100 and -20 at the three inputs of the
  specification's test.
\<close>

theorem pd_control_law:
  "pd_control target_q current_q k_p current_dq k_d default_q
     = k_p * (target_q + default_q - current_q) - k_d * current_dq
   \<and> pd_control 0 0 100 0 10 0 = 0
   \<and> pd_control 1 0 100 0 10 0 = 100
   \<and> pd_control 0 0 100 2 10 0 = -20"
  by (simp add: pd_control_def)

subsection \<open>The joint taxonomy\<close>

text \<open>
  Claim C6, as the code has it.  \<open>all_joints\<close> is a function of the class, so two calls
  agree.  It does not follow the declaration order: at every class it lists the class's
  own joints first and the joints of its child nodes after them, both in the
  alphabetical order of the attribute names that \<^verbatim>\<open>dir\<close> returns.  On the reference
  robot this differs from the depth-first enumeration in declaration order.
\<close>

theorem all_joints_order_counterexample:
  "all_joints Stompy \<noteq> spec_all_joints Stompy"
  unfolding all_joints_Stompy spec_all_joints_Stompy by simp

text \<open>
  Claim C6, amended: the enumeration of a class is its own string attributes followed
  by the enumerations of its node attributes, both taken along the public attribute
  names, which are sorted, without repetition, and are exactly the names of the class
  body that do not start with two underscores.
\<close>

theorem all_joints_sorted_attribute_order:
  "all_joints cls =
     map the_str (filter is_str (map (getattr cls) (public_attrs cls))) @
     concat (map (\<lambda>child. all_joints (the_node child))
               (filter is_node (map (getattr cls) (public_attrs cls))))
   \<and> sorted (public_attrs cls) \<and> distinct (public_attrs cls)
   \<and> set (public_attrs cls) = {a \<in> fst ` set cls. \<not> startswith a ''__''}"
proof -
  have "(\<lambda>v. (is_node v \<or> is_str v) \<and> is_node v) = is_node"
    by auto
  then have "filter is_node (children cls) = filter is_node (attr_values cls)"
    by (simp add: children_def)
  then show ?thesis
    using public_attrs_sorted [of cls]
    by (simp add: all_joints.simps [of cls] joints_def attr_values_def)
qed

text \<open>
  Claim C3, as the code has it.  Nothing checks for duplicates when a taxonomy is
  built: a class in which two attributes hold the same joint name is created without
  error, and flattening returns the name twice.
\<close>

theorem duplicate_leaves_counterexample:
  "instantiate [(''hip_pitch'', Str ''left knee pitch''), (''knee_pitch'', Str ''left knee pitch'')]
     = Inr [(''hip_pitch'', Str ''left knee pitch''), (''knee_pitch'', Str ''left knee pitch'')]
   \<and> all_joints [(''hip_pitch'', Str ''left knee pitch''), (''knee_pitch'', Str ''left knee pitch'')]
     = [''left knee pitch'', ''left knee pitch'']"
  by code_simp

text \<open>
  Claim C3, amended: building a taxonomy never fails; duplicates are found only when
  \<^verbatim>\<open>print_joints\<close> is called, which fails with an assertion error exactly when the
  flattened list repeats an identifier.
\<close>

theorem duplicates_found_by_print_joints:
  "instantiate cls = Inr cls \<and>
   print_joints cls =
     (if distinct (all_joints cls) then Inr ()
      else Inl (AssertionError ''Duplicate joint names found!''))"
proof -
  have "length (all_joints cls) = card (set (all_joints cls)) \<longleftrightarrow> distinct (all_joints cls)"
    by (metis card_distinct distinct_card)
  then show ?thesis by (simp add: print_joints_def instantiate_def Let_def)
qed

subsection \<open>Parameter resolution\<close>

text \<open>
  Claim C4, as the code has it.  For a joint whose name contains no category of the
  gain tables, \<^verbatim>\<open>run_id_test\<close> raises nothing: the gains keep the values they were
  given before the lookups, 250 and 10.
\<close>

theorem unknown_category_counterexample:
  "matching (r_stiffness arm_robot) ''left shoulder yaw'' = [] \<and>
   matching (r_damping arm_robot) ''left shoulder yaw'' = [] \<and>
   run_id_test_locals arm_robot [(''left shoulder yaw'', 0), (''left elbow'', 1)] ''left shoulder yaw''
     = Inr \<lparr> num_dof = 2, default_pos = 0.5, kp = 250, kd = 10,
             joint_name = ''left shoulder yaw'', joint_id = 0, steps = 10000, dt = 0.001,
             decimation = 5, torque_limits = 18, TORQUE_SOFT = 18 \<rparr>"
  by (simp add: arm_robot_def matching_def keys_def stiffness_def damping_def
        run_id_test_locals_def dict_get_def)

text \<open>
  Claim C4, amended: for a joint that has a standing angle and an engine index and whose
  name contains no category of the stiffness and damping tables, the resolution returns
  normally with the fallback gains \<open>kp = 250\<close> and \<open>kd = 10\<close>.
\<close>

theorem unknown_category_falls_back:
  assumes "matching (r_stiffness R) name = []"
    and "matching (r_damping R) name = []"
    and "map_of (r_default_standing R) name = Some d"
    and "map_of dof_ids name = Some i"
  shows "run_id_test_locals R dof_ids name
     = Inr \<lparr> num_dof = length (r_all_joints R), default_pos = d, kp = 250, kd = 10,
             joint_name = name, joint_id = i, steps = 10000, dt = 0.001,
             decimation = 5, torque_limits = 18, TORQUE_SOFT = 18 \<rparr>"
  using assms by (simp add: run_id_test_locals_def dict_get_def lookup_break_none)

theorem unknown_category_falls_back_witness:
  "matching (r_stiffness arm_robot) ''left elbow'' = [] \<and>
   matching (r_damping arm_robot) ''left elbow'' = [] \<and>
   map_of (r_default_standing arm_robot) ''left elbow'' = Some 0.25 \<and>
   map_of [(''left shoulder yaw'', 0), (''left elbow'', 1)] ''left elbow'' = Some (1::nat) \<and>
   run_id_test_locals arm_robot [(''left shoulder yaw'', 0), (''left elbow'', 1)] ''left elbow''
     = Inr \<lparr> num_dof = 2, default_pos = 0.25, kp = 250, kd = 10,
             joint_name = ''left elbow'', joint_id = 1, steps = 10000, dt = 0.001,
             decimation = 5, torque_limits = 18, TORQUE_SOFT = 18 \<rparr>"
proof -
  have h1: "matching (r_stiffness arm_robot) ''left elbow'' = []"
    by (simp add: arm_robot_def matching_def keys_def stiffness_def)
  have h2: "matching (r_damping arm_robot) ''left elbow'' = []"
    by (simp add: arm_robot_def matching_def keys_def damping_def)
  have h3: "map_of (r_default_standing arm_robot) ''left elbow'' = Some 0.25"
    by (simp add: arm_robot_def)
  have h4: "map_of [(''left shoulder yaw'', 0), (''left elbow'', 1)] ''left elbow'' = Some (1::nat)"
    by simp
  have "length (r_all_joints arm_robot) = 2" by (simp add: arm_robot_def)
  with unknown_category_falls_back [OF h1 h2 h3 h4] h1 h2 h3 h4 show ?thesis by simp
qed



text \<open>
  Claim C8.  The reference taxonomy has twelve joints, and for each of them a category
  is found in every table, the standing angle and both travel limits are found, and
  the standing angle lies between the limits; the URDF rewrite finds the same values.
\<close>

theorem reference_joints_resolve:
  "length (all_joints Stompy) = 12 \<and>
   (\<forall>joint \<in> set (all_joints Stompy).
      category_found joint \<and> limits_around_default joint \<and> urdf_values_written joint)"
  by code_simp

theorem reference_joints_resolve_witness:
  "''left knee pitch'' \<in> set (all_joints Stompy) \<and>
   category_found ''left knee pitch'' \<and> limits_around_default ''left knee pitch'' \<and>
   urdf_values_written ''left knee pitch''"
proof -
  have m: "''left knee pitch'' \<in> set (all_joints Stompy)"
    by (simp add: all_joints_Stompy)
  with reference_joints_resolve show ?thesis by blast
qed

subsection \<open>The driver loop\<close>

text \<open>
  Claim C2, as the code has it.  The loop of \<^verbatim>\<open>main\<close> runs over the keys of the
  standing-angle table and calls \<^verbatim>\<open>run_id_test\<close> only under the guard
  \<^verbatim>\<open>if "ankle" in joint\<close>: on the reference robot it calibrates the four ankle
  joints, where the specification's selection is the eight other joints.
\<close>

theorem driver_loop_counterexample:
  "main_calls (keys default_standing)
     = Inr [''left ankle pitch'', ''left ankle roll'', ''right ankle pitch'', ''right ankle roll'']
   \<and> spec_selected (all_joints Stompy)
     = [''left hip pitch'', ''left hip roll'', ''left hip yaw'', ''left knee pitch'',
        ''right hip pitch'', ''right hip roll'', ''right hip yaw'', ''right knee pitch'']"
  by (simp add: all_joints_Stompy spec_selected_def main_calls_def keys_def default_standing_def)

text \<open>
  Claim C2, amended: \<^verbatim>\<open>main\<close> runs \<^verbatim>\<open>run_id_test\<close> in mode \<^verbatim>\<open>calibration\<close> once
  for each key of the standing-angle table, in table order, whose name contains
  \<^verbatim>\<open>ankle\<close> and none of \<^verbatim>\<open>shoulder\<close>, \<^verbatim>\<open>elbow\<close>, \<^verbatim>\<open>wrist\<close>, and for no other
  joint, stopping at the first run that raises.  On the reference robot the joints
  selected from the flattened taxonomy are the same, in the same order.
\<close>

theorem driver_loop_runs_ankle_joints:
  "main gym Robot dof_ids s =
     run_each
       (\<lambda>joint (s, out).
          case run_id_test gym Robot dof_ids s joint ''calibration'' of
            Inl e \<Rightarrow> Inl e
          | Inr (s', file) \<Rightarrow> Inr (s', out @ [file]))
       (filter ankle_only (keys (r_default_standing Robot))) (s, []) \<and>
   main_loop run js g = run_each run (filter ankle_only js) g \<and>
   main_calls js = Inr (filter ankle_only js) \<and>
   main_calls (all_joints Stompy) = main_calls (keys default_standing)"
proof -
  have "main_calls (all_joints Stompy) = main_calls (keys default_standing)"
    unfolding all_joints_Stompy by (simp add: main_calls_def keys_def default_standing_def)
  then show ?thesis
    by (simp add: main_def main_calls_def main_loop_filter run_each_record)
qed

subsection \<open>The calibration phases\<close>




text \<open>
  Claim C9.  In mode \<^verbatim>\<open>sin_id\<close>, where \<^verbatim>\<open>run_id_test\<close> fixes \<open>steps = 10000\<close> and
  \<open>decimation = 5\<close>, a run on a joint of the standing-angle table returns, and the
  three lists it saves hold one sample for each tick from 100 to 9999: exactly
  \<open>10000 - 100 = 9900\<close> samples.  The assumptions say that the engine knows every
  joint of the table and returns a state tensor of the robot's size.
\<close>

theorem sin_id_sample_count:
  assumes name: "name \<in> set (keys (r_default_standing R))"
    and ids: "ids_in_range dof_ids (keys (r_default_standing R)) (length (r_all_joints R))"
    and acq: "\<forall>s. length (acquire_dof_state_tensor gym s) = length (r_all_joints R)"
  shows "\<exists>s' time_data position_data velocity_data.
     run_id_test gym R dof_ids s name ''sin_id''
       = Inr (s', Series ''simulaion.npz'' time_data position_data velocity_data) \<and>
     time_data = [100 ..< 10000] \<and> length time_data = 10000 - 100 \<and>
     length position_data = 9900 \<and> length velocity_data = 9900"
proof -
  from keys_map_of [OF name] obtain d where d: "map_of (r_default_standing R) name = Some d"
    by blast
  from ids_in_range_mem [OF ids name] obtain i
    where i: "i < length (r_all_joints R)" "map_of dof_ids name = Some i" by blast
  define L where "L = \<lparr> num_dof = length (r_all_joints R), default_pos = d,
             kp = lookup_break (r_stiffness R) name 250, kd = lookup_break (r_damping R) name 10,
             joint_name = name, joint_id = i, steps = 10000, dt = 0.001,
             decimation = 5, torque_limits = 18, TORQUE_SOFT = 18 \<rparr>"
  have loc: "run_id_test_locals R dof_ids name = Inr L"
    unfolding L_def by (rule locals_ok [OF d i(2)])
  have ids': "ids_in_range dof_ids (keys (r_default_standing R)) (num_dof L)"
    and tgt: "joint_id L < num_dof L"
    and acq': "\<forall>s. length (acquire_dof_state_tensor gym s) = num_dof L"
    using ids i acq by (simp_all add: L_def)
  obtain s1 where settle: "settle gym 0 s = (100, s1)"
    using settle_step [of 0 gym s] by (cases "settle gym 0 s") simp
  define st0 :: "'a track_state" where
    "st0 = \<lparr> dof_pos = replicate (num_dof L) 0, dof_vel = replicate (num_dof L) 0,
             q = 0, dq = 0, sim = s1 \<rparr>"
  have "track_inv L st0" by (simp add: track_inv_def st0_def)
  from track_ok [OF ids' tgt acq' this, of 100 "[]" "[]" "[]"]
  obtain st' new_p new_v where r:
      "track gym dof_ids (r_default_standing R) L 100 (st0, [], [], [])
         = Inr (st', [100 ..< 10000], new_p, new_v)"
      "length new_p = 9900" "length new_v = 9900"
    by auto
  have "run_id_test gym R dof_ids s name ''sin_id''
      = Inr (sim st', Series ''simulaion.npz'' [100 ..< 10000] new_p new_v)"
    using loc settle r(1) by (simp add: run_id_test_def run_sin_id_def st0_def)
  with r(2,3) show ?thesis by simp
qed

theorem sin_id_sample_count_witness:
  "''left knee pitch'' \<in> set (keys (r_default_standing stompy_legs)) \<and>
   ids_in_range legs_dof_ids (keys (r_default_standing stompy_legs))
     (length (r_all_joints stompy_legs)) \<and>
   (\<forall>s. length (acquire_dof_state_tensor still_gym s) = length (r_all_joints stompy_legs)) \<and>
   (\<exists>s' time_data position_data velocity_data.
      run_id_test still_gym stompy_legs legs_dof_ids 0 ''left knee pitch'' ''sin_id''
        = Inr (s', Series ''simulaion.npz'' time_data position_data velocity_data) \<and>
      length time_data = 9900 \<and> length position_data = 9900 \<and>
      length velocity_data = 9900)"
proof -
  have n: "length (r_all_joints stompy_legs) = 12"
    by (simp add: stompy_legs_def all_joints_Stompy)
  have h1: "''left knee pitch'' \<in> set (keys (r_default_standing stompy_legs))"
    by (simp add: stompy_legs_def keys_def default_standing_def)
  have h2: "ids_in_range legs_dof_ids (keys (r_default_standing stompy_legs))
              (length (r_all_joints stompy_legs))"
    unfolding n using legs_ids_in_range by (simp add: stompy_legs_def)
  have h3: "\<forall>s. length (acquire_dof_state_tensor still_gym s) = length (r_all_joints stompy_legs)"
    unfolding n by (simp add: still_gym_def standing_pos_def)
  from sin_id_sample_count [OF h1 h2 h3, of 0] h1 h2 h3 show ?thesis
    by fastforce
qed

text \<open>
  Claim C10.  In mode \<^verbatim>\<open>calibration\<close>, where \<open>steps = 10000\<close>, a run on a joint of the
  standing-angle table with an engine index in range returns; the high ramp runs 250
  ticks and yields 250 position samples, the low ramp starting from its end state
  yields 250 more, and the saved trace is the high samples followed by the low
  samples, 500 entries.
\<close>

theorem sweep_position_trace:
  assumes name: "name \<in> set (keys (r_default_standing R))"
    and i: "map_of dof_ids name = Some i" "i < length (r_all_joints R)"
    and acq: "\<forall>s. length (acquire_dof_state_tensor gym s) = length (r_all_joints R)"
  shows "\<exists>L st_hi hi st_lo lo s'.
     run_id_test_locals R dof_ids name = Inr L \<and> steps L = 10000 \<and>
     ramp gym L (TORQUE_SOFT L) 0
        ((replicate (num_dof L) 0, 0, (sim_step gym ^^ 100) s), []) = Inr (st_hi, hi) \<and>
     length hi = 250 \<and>
     ramp gym L (- TORQUE_SOFT L) 0 (st_hi, []) = Inr (st_lo, lo) \<and>
     length lo = 250 \<and>
     run_id_test gym R dof_ids s name ''calibration''
       = Inr (s', Positions (name @ ''_calibration.npz'') (hi @ lo)) \<and>
     length (hi @ lo) = 500"
proof -
  from keys_map_of [OF name] obtain d where d: "map_of (r_default_standing R) name = Some d"
    by blast
  define L where "L = \<lparr> num_dof = length (r_all_joints R), default_pos = d,
             kp = lookup_break (r_stiffness R) name 250, kd = lookup_break (r_damping R) name 10,
             joint_name = name, joint_id = i, steps = 10000, dt = 0.001,
             decimation = 5, torque_limits = 18, TORQUE_SOFT = 18 \<rparr>"
  have loc: "run_id_test_locals R dof_ids name = Inr L"
    unfolding L_def by (rule locals_ok [OF d i(1)])
  have tgt: "joint_id L < num_dof L"
    and acq': "\<forall>s. length (acquire_dof_state_tensor gym s) = num_dof L"
    and steps: "steps L = 10000" and nm: "joint_name L = name"
    using i acq by (simp_all add: L_def)
  define st0 :: "'a sweep_state" where
    "st0 = (replicate (num_dof L) 0, 0, (sim_step gym ^^ 100) s)"
  have "length (fst st0) = num_dof L" by (simp add: st0_def)
  from ramp_ok [OF tgt acq' steps this, of 0 "TORQUE_SOFT L" "[]"]
  obtain st_hi hi where hi: "ramp gym L (TORQUE_SOFT L) 0 (st0, []) = Inr (st_hi, hi)"
      "length hi = 250" "length (fst st_hi) = num_dof L"
    by auto
  from ramp_ok [OF tgt acq' steps hi(3), of 0 "- TORQUE_SOFT L" "[]"]
  obtain st_lo lo where lo: "ramp gym L (- TORQUE_SOFT L) 0 (st_hi, []) = Inr (st_lo, lo)"
      "length lo = 250"
    by auto
  have "ramp gym L (- TORQUE_SOFT L) 0 (st_hi, hi) = Inr (st_lo, hi @ lo)"
    using ramp_append [of gym L "- TORQUE_SOFT L" 0 st_hi hi "[]"] lo(1) by simp
  then have run: "run_id_test gym R dof_ids s name ''calibration''
      = Inr (snd (snd st_lo), Positions (name @ ''_calibration.npz'') (hi @ lo))"
    using loc hi(1) nm
    by (cases st_lo) (simp add: run_id_test_def run_calibration_def st0_def Let_def)
  have len: "length (hi @ lo) = 500" using hi(2) lo(2) by simp
  from loc steps hi(1,2) lo run len show ?thesis
    unfolding st0_def by blast
qed

theorem sweep_position_trace_witness:
  "''left knee pitch'' \<in> set (keys (r_default_standing stompy_legs)) \<and>
   map_of legs_dof_ids ''left knee pitch'' = Some 5 \<and>
   5 < length (r_all_joints stompy_legs) \<and>
   (\<forall>s. length (acquire_dof_state_tensor still_gym s) = length (r_all_joints stompy_legs)) \<and>
   (\<exists>s' positions.
      run_id_test still_gym stompy_legs legs_dof_ids 0 ''left knee pitch'' ''calibration''
        = Inr (s', Positions ''left knee pitch_calibration.npz'' positions) \<and>
      length positions = 500)"
proof -
  have n: "length (r_all_joints stompy_legs) = 12"
    by (simp add: stompy_legs_def all_joints_Stompy)
  have h1: "''left knee pitch'' \<in> set (keys (r_default_standing stompy_legs))"
    by (simp add: stompy_legs_def keys_def default_standing_def)
  have h2: "map_of legs_dof_ids ''left knee pitch'' = Some 5"
    by (simp add: legs_dof_ids_def)
  have h3: "5 < length (r_all_joints stompy_legs)"
    unfolding n by simp
  have h4: "\<forall>s. length (acquire_dof_state_tensor still_gym s) = length (r_all_joints stompy_legs)"
    unfolding n by (simp add: still_gym_def standing_pos_def)
  from sweep_position_trace [OF h1 h2 h3 h4, of 0]
  obtain s' hi lo where
      "run_id_test still_gym stompy_legs legs_dof_ids 0 ''left knee pitch'' ''calibration''
         = Inr (s', Positions (''left knee pitch'' @ ''_calibration.npz'') (hi @ lo))"
      "length (hi @ lo) = 500"
    by blast
  then have "\<exists>s' positions.
      run_id_test still_gym stompy_legs legs_dof_ids 0 ''left knee pitch'' ''calibration''
        = Inr (s', Positions ''left knee pitch_calibration.npz'' positions) \<and>
      length positions = 500"
    by (intro exI [of _ s'] exI [of _ "hi @ lo"]) simp
  with h1 h2 h3 h4 show ?thesis by blast
qed

end
